theory Spec2Isabelle
  imports Complex_Main "HOL-Library.Log_Nat"
begin

section \<open>Numbers of the program\<close>

text \<open>
  Prices, liquidities, timestamps and latencies are Python \<^verbatim>\<open>Decimal\<close> and \<^verbatim>\<open>float\<close>
  values. They are embedded as exact rationals: the scanner only compares them and
  stores the value it compared, and the statistics are algebraic identities.
  Integer amounts (lamports) are Python's unbounded \<^verbatim>\<open>int\<close>, embedded as \<^typ>\<open>int\<close>.

  Where an integer amount passes through a \<^verbatim>\<open>float\<close> and comes back as an integer
  (\<^verbatim>\<open>int(amount * slippage_factor)\<close>), rounding decides the integer, so binary64
  arithmetic is embedded explicitly: a finite double is the rational it denotes, and
  every operation rounds its exact result to the nearest double, ties to even.
\<close>

datatype py_error = OverflowError | ZeroDivisionError

subsection \<open>Binary64 rounding\<close>

text \<open>\<open>floor_log2 x\<close> is the exponent \<open>e\<close> with \<open>2^e \<le> x < 2^(e+1)\<close>, for positive \<open>x\<close>.\<close>

definition floor_log2 :: "rat \<Rightarrow> int" where
  "floor_log2 x =
     (case quotient_of x of (p, q) \<Rightarrow>
        let e0 = int (floorlog 2 (nat p)) - int (floorlog 2 (nat q))
        in if power_int 2 e0 \<le> x then e0 else e0 - 1)"

definition round_half_even :: "rat \<Rightarrow> int" where
  "round_half_even r =
     (let f = \<lfloor>r\<rfloor>; d = r - of_int f
      in if d < 1 / 2 then f else if 1 / 2 < d then f + 1
         else if even f then f else f + 1)"

text \<open>
  Rounding to binary64: 53 significant bits, the exponent of the last bit at least
  \<open>-1074\<close> (subnormal range); \<open>None\<close> is an infinity (the rounded magnitude would be
  \<open>2^1024\<close> or more).
\<close>

definition round_double :: "rat \<Rightarrow> rat option" where
  "round_double x =
     (if x = 0 then Some 0
      else let e = max (floor_log2 \<bar>x\<bar> - 52) (- 1074);
               m = round_half_even (\<bar>x\<bar> / power_int 2 e)
           in if 971 < e \<or> (e = 971 \<and> 2 ^ 53 \<le> m) then None
              else Some (sgn x * of_int m * power_int 2 e))"

text \<open>
  Python's \<^verbatim>\<open>a / b\<close> on integers (correctly rounded; raises when the quotient is too
  large for a float), the conversion of an \<^verbatim>\<open>int\<close> operand of a float operation,
  the float product (which may be an infinity, without raising) and \<^verbatim>\<open>int(x)\<close>
  (truncation towards zero; raises on an infinity).
\<close>

definition int_truediv :: "int \<Rightarrow> int \<Rightarrow> py_error + rat" where
  "int_truediv a b =
     (if b = 0 then Inl ZeroDivisionError
      else case round_double (of_int a / of_int b) of
             None \<Rightarrow> Inl OverflowError | Some q \<Rightarrow> Inr q)"

definition int_to_float :: "int \<Rightarrow> py_error + rat" where
  "int_to_float a =
     (case round_double (of_int a) of None \<Rightarrow> Inl OverflowError | Some x \<Rightarrow> Inr x)"

definition float_mul :: "rat \<Rightarrow> rat \<Rightarrow> rat option" where
  "float_mul x y = round_double (x * y)"

definition float_to_int :: "rat option \<Rightarrow> py_error + int" where
  "float_to_int x =
     (case x of None \<Rightarrow> Inl OverflowError
      | Some v \<Rightarrow> Inr (if 0 \<le> v then \<lfloor>v\<rfloor> else \<lceil>v\<rceil>))"

text \<open>
  The expression \<^verbatim>\<open>int(amount * ((10000 - slippage_bps) / 10000))\<close>, which the source
  writes out twice: in \<^verbatim>\<open>calculate_slippage_amount\<close> and in \<^verbatim>\<open>_build_swap_data\<close>.
\<close>

definition slippage_min_out :: "int \<Rightarrow> int \<Rightarrow> py_error + int" where
  "slippage_min_out amount slippage_bps =
     (case int_truediv (10000 - slippage_bps) 10000 of
        Inl e \<Rightarrow> Inl e
      | Inr slippage_factor \<Rightarrow>
          (case int_to_float amount of
             Inl e \<Rightarrow> Inl e
           | Inr a \<Rightarrow> float_to_int (float_mul a slippage_factor)))"

section \<open>config.py\<close>

record settings =
  min_profit_threshold :: rat
  max_slippage_bps :: int
  max_position_size :: rat
  monitored_tokens :: "string list"
  price_update_interval :: rat
  max_concurrent_swaps :: int

section \<open>utils.py\<close>

text \<open>
  \<^verbatim>\<open>calculate_profit(buy_price, sell_price, position_size)\<close>:
  \<^verbatim>\<open>profit = (sell_price - buy_price) * position_size; return max(profit, Decimal("0"))\<close>.
\<close>

definition calculate_profit :: "rat \<Rightarrow> rat \<Rightarrow> rat \<Rightarrow> rat" where
  "calculate_profit buy_price sell_price position_size =
     (let profit = (sell_price - buy_price) * position_size in max profit 0)"

text \<open>\<^verbatim>\<open>calculate_slippage_amount(amount, slippage_bps)\<close>.\<close>

definition calculate_slippage_amount :: "int \<Rightarrow> int \<Rightarrow> py_error + int" where
  "calculate_slippage_amount amount slippage_bps = slippage_min_out amount slippage_bps"

section \<open>swap_executor.py\<close>

subsection \<open>Building the order\<close>

record swap_instruction =
  dex_type :: nat
  amount_in :: int
  minimum_amount_out :: int
  token_mint_in :: string
  token_mint_out :: string

record swap_data =
  expected_profit :: int
  slippage_bps :: int
  swap_instructions :: "swap_instruction list"

definition dex_type_map :: "(string \<times> nat) list" where
  "dex_type_map = [(''jupiter'', 0), (''raydium'', 1), (''phoenix'', 2), (''meteora'', 3)]"

text \<open>
  \<^verbatim>\<open>str.lower()\<close> on the bytes of the name: the letters A to Z are mapped, every other
  byte is kept. (No character outside ASCII lowers to a letter of the four names of
  \<open>dex_type_map\<close>, so membership is decided as in the source.)
\<close>

definition lower_char :: "char \<Rightarrow> char" where
  "lower_char c =
     (case map_of (zip ''ABCDEFGHIJKLMNOPQRSTUVWXYZ'' ''abcdefghijklmnopqrstuvwxyz'') c of
        None \<Rightarrow> c | Some l \<Rightarrow> l)"

definition lower :: "string \<Rightarrow> string" where
  "lower s = map lower_char s"

text \<open>
  The loop of \<^verbatim>\<open>_build_swap_data\<close> over \<^verbatim>\<open>enumerate(dex_path)\<close>: \<open>n\<close> is
  \<^verbatim>\<open>len(dex_path)\<close>, \<open>i\<close> the index, \<open>acc\<close> the list \<^verbatim>\<open>swap_instructions\<close> so far.
  An unknown venue returns \<^verbatim>\<open>None\<close>; so does any exception (the \<^verbatim>\<open>except Exception\<close>
  of the function), here the overflow of the float arithmetic.
\<close>

fun build_instructions ::
  "int \<Rightarrow> string \<Rightarrow> string \<Rightarrow> nat \<Rightarrow> nat \<Rightarrow> string list \<Rightarrow> int
     \<Rightarrow> swap_instruction list \<Rightarrow> swap_instruction list option" where
  "build_instructions bps token_a token_b n i [] current_amount acc = Some acc"
| "build_instructions bps token_a token_b n i (dex_name # rest) current_amount acc =
     (case map_of dex_type_map (lower dex_name) of
        None \<Rightarrow> None
      | Some t \<Rightarrow>
          let (input_token, output_token) =
                (if i = 0 then (token_a, token_b)
                 else if int i = int n - 1 then (token_b, token_a)
                 else (token_b, token_a))
          in (case slippage_min_out current_amount bps of
                Inl e \<Rightarrow> None
              | Inr min_amount_out \<Rightarrow>
                  build_instructions bps token_a token_b n (Suc i) rest min_amount_out
                    (acc @ [\<lparr>dex_type = t, amount_in = current_amount,
                              minimum_amount_out = min_amount_out,
                              token_mint_in = input_token,
                              token_mint_out = output_token\<rparr>])))"

definition build_swap_data ::
  "settings \<Rightarrow> string \<Rightarrow> string \<Rightarrow> int \<Rightarrow> string list \<Rightarrow> int \<Rightarrow> swap_data option" where
  "build_swap_data cfg token_a token_b swap_amount dex_path min_profit =
     (case build_instructions (max_slippage_bps cfg) token_a token_b (length dex_path) 0
             dex_path swap_amount [] of
        None \<Rightarrow> None
      | Some instrs \<Rightarrow>
          Some \<lparr>expected_profit = min_profit, slippage_bps = max_slippage_bps cfg,
                swap_instructions = instrs\<rparr>)"

subsection \<open>Execution statistics\<close>

record execution_stats =
  total_attempts :: int
  successful_swaps :: int
  failed_swaps :: int
  total_gas_used :: int
  average_execution_time :: rat

definition initial_stats :: execution_stats where
  "initial_stats = \<lparr>total_attempts = 0, successful_swaps = 0, failed_swaps = 0,
                     total_gas_used = 0, average_execution_time = 0\<rparr>"

text \<open>
  \<^verbatim>\<open>_update_average_execution_time\<close>; the division raises when the success counter
  is zero.
\<close>

definition update_average_execution_time ::
  "execution_stats \<Rightarrow> rat \<Rightarrow> py_error + execution_stats" where
  "update_average_execution_time stats execution_time =
     (let total_successful = successful_swaps stats;
          current_avg = average_execution_time stats
      in if total_successful = 0 then Inl ZeroDivisionError
         else Inr (stats\<lparr>average_execution_time :=
                     (current_avg * of_int (total_successful - 1) + execution_time)
                       / of_int total_successful\<rparr>))"

text \<open>
  What \<^verbatim>\<open>execute_arbitrage_swap\<close> gets from outside in one call: whether
  \<^verbatim>\<open>_get_swap_accounts\<close> returns the accounts (or \<^verbatim>\<open>None\<close>), whether
  \<^verbatim>\<open>_build_arbitrage_instruction\<close> raises, what \<^verbatim>\<open>_send_transaction\<close> returns
  (\<^verbatim>\<open>None\<close> on every failure, which it catches itself), and the time elapsed since the
  call started when the transaction result arrives.
\<close>

record tx_result =
  tx_signature :: string
  tx_slot :: "int option"
  tx_gas_used :: "int option"
  tx_actual_profit :: "int option"

record swap_env =
  env_accounts :: bool
  env_instruction_raises :: bool
  env_tx_result :: "tx_result option"
  env_execution_time :: rat

record swap_result =
  res_signature :: string
  res_slot :: int
  res_actual_profit :: int
  res_gas_used :: int
  res_execution_time :: rat
  res_dex_path :: "string list"

definition get_or :: "'a option \<Rightarrow> 'a \<Rightarrow> 'a" where
  "get_or v d = (case v of None \<Rightarrow> d | Some x \<Rightarrow> x)"

definition fail :: "execution_stats \<Rightarrow> swap_result option \<times> execution_stats" where
  "fail stats = (None, stats\<lparr>failed_swaps := failed_swaps stats + 1\<rparr>)"

text \<open>
  \<^verbatim>\<open>execute_arbitrage_swap\<close>, returning its result and the statistics it leaves. Every
  exception raised in the \<^verbatim>\<open>try\<close> block ends in the \<^verbatim>\<open>except Exception\<close> branch, which
  counts a failure.
\<close>

definition execute_arbitrage_swap ::
  "settings \<Rightarrow> swap_env \<Rightarrow> execution_stats \<Rightarrow> string \<Rightarrow> string \<Rightarrow> int \<Rightarrow> string list \<Rightarrow> int
     \<Rightarrow> swap_result option \<times> execution_stats" where
  "execute_arbitrage_swap cfg env stats token_a token_b swap_amount dex_path min_profit =
     (let s1 = stats\<lparr>total_attempts := total_attempts stats + 1\<rparr>
      in case build_swap_data cfg token_a token_b swap_amount dex_path min_profit of
           None \<Rightarrow> fail s1
         | Some swap_data \<Rightarrow>
             if \<not> env_accounts env then fail s1
             else if env_instruction_raises env then fail s1
             else (case env_tx_result env of
                     None \<Rightarrow> fail s1
                   | Some tx \<Rightarrow>
                       let execution_time = env_execution_time env;
                           s2 = s1\<lparr>successful_swaps := successful_swaps s1 + 1\<rparr>;
                           s3 = s2\<lparr>total_gas_used :=
                                    total_gas_used s2 + get_or (tx_gas_used tx) 0\<rparr>
                       in (case update_average_execution_time s3 execution_time of
                             Inl e \<Rightarrow> fail s3
                           | Inr s4 \<Rightarrow>
                               (Some \<lparr>res_signature = tx_signature tx,
                                      res_slot = get_or (tx_slot tx) 0,
                                      res_actual_profit = get_or (tx_actual_profit tx) 0,
                                      res_gas_used = get_or (tx_gas_used tx) 0,
                                      res_execution_time = execution_time,
                                      res_dex_path = dex_path\<rparr>, s4))))"

text \<open>A call: what comes from outside, and the five arguments.\<close>

type_synonym swap_call = "swap_env \<times> string \<times> string \<times> int \<times> string list \<times> int"

text \<open>Calls made one after the other on the same executor: the results and the statistics.\<close>

fun execute_all ::
  "settings \<Rightarrow> execution_stats \<Rightarrow> swap_call list \<Rightarrow> swap_result option list \<times> execution_stats" where
  "execute_all cfg stats [] = ([], stats)"
| "execute_all cfg stats ((env, token_a, token_b, swap_amount, dex_path, min_profit) # rest) =
     (case execute_arbitrage_swap cfg env stats token_a token_b swap_amount dex_path min_profit of
        (result, stats') \<Rightarrow>
          (case execute_all cfg stats' rest of
             (results, final) \<Rightarrow> (result # results, final)))"

section \<open>price_monitor.py\<close>

text \<open>
  A venue's price dictionary maps a pair key \<^verbatim>\<open>"A-B"\<close> to the quote's dictionary;
  \<^verbatim>\<open>latest_prices\<close> maps a venue name to its price dictionary. Python dictionaries
  iterate in insertion order, which the scan's tie-breaking depends on, so both are
  association lists in that order (a dictionary has no repeated key); \<^verbatim>\<open>key in d\<close> and
  \<^verbatim>\<open>d[key]\<close> are \<open>map_of\<close>. \<^verbatim>\<open>"liquidity"\<close> is read with \<^verbatim>\<open>.get("liquidity", 0)\<close>, so
  it may be absent.
\<close>

record price_data =
  pd_price :: rat
  pd_liquidity :: "rat option"
  pd_price_impact :: rat
  pd_timestamp :: rat

type_synonym prices = "(string \<times> price_data) list"
type_synonym latest_prices = "(string \<times> prices) list"

text \<open>The entries of the list \<^verbatim>\<open>dex_prices\<close> and the dictionaries of the result.\<close>

record dex_price =
  e_dex :: string
  e_price :: rat
  e_liquidity :: rat
  e_timestamp :: rat

record opportunity =
  o_token_pair :: string
  o_buy_dex :: string
  o_sell_dex :: string
  o_buy_price :: rat
  o_sell_price :: rat
  o_profit_percentage :: rat
  o_buy_liquidity :: rat
  o_sell_liquidity :: rat
  o_timestamp :: rat

definition pair_key :: "string \<Rightarrow> string \<Rightarrow> string" where
  "pair_key token_a token_b = token_a @ ''-'' @ token_b"

text \<open>The loop \<^verbatim>\<open>for dex_name, prices in self.latest_prices.items()\<close> filling \<^verbatim>\<open>dex_prices\<close>.\<close>

fun collect_dex_prices :: "latest_prices \<Rightarrow> string \<Rightarrow> dex_price list" where
  "collect_dex_prices [] key = []"
| "collect_dex_prices ((dex_name, prices) # rest) key =
     (case map_of prices key of
        None \<Rightarrow> collect_dex_prices rest key
      | Some price_data \<Rightarrow>
          \<lparr>e_dex = dex_name, e_price = pd_price price_data,
           e_liquidity = (case pd_liquidity price_data of None \<Rightarrow> 0 | Some l \<Rightarrow> l),
           e_timestamp = pd_timestamp price_data\<rparr> # collect_dex_prices rest key)"

text \<open>
  Python's \<^verbatim>\<open>min(xs, key=...)\<close> and \<^verbatim>\<open>max(xs, key=...)\<close>: one pass that keeps the
  current best and replaces it only by a strictly smaller (larger) key.
\<close>

fun min_from :: "dex_price \<Rightarrow> dex_price list \<Rightarrow> dex_price" where
  "min_from best [] = best"
| "min_from best (x # xs) = min_from (if e_price x < e_price best then x else best) xs"

fun max_from :: "dex_price \<Rightarrow> dex_price list \<Rightarrow> dex_price" where
  "max_from best [] = best"
| "max_from best (x # xs) = max_from (if e_price best < e_price x then x else best) xs"

text \<open>
  The body of the two nested loops for one ordered pair; \<open>now\<close> is the reading of
  \<^verbatim>\<open>time.time()\<close> taken when the opportunity is built. The float division raises
  \<^verbatim>\<open>ZeroDivisionError\<close> on a zero buy price.
\<close>

definition scan_pair ::
  "latest_prices \<Rightarrow> rat \<Rightarrow> string \<Rightarrow> string \<Rightarrow> rat \<Rightarrow> py_error + opportunity option" where
  "scan_pair lp min_profit_percentage token_a token_b now =
     (case collect_dex_prices lp (pair_key token_a token_b) of
        x # y # rest \<Rightarrow>
          let min_price_entry = min_from x (y # rest);
              max_price_entry = max_from x (y # rest)
          in if e_dex min_price_entry \<noteq> e_dex max_price_entry then
               if e_price min_price_entry = 0 then Inl ZeroDivisionError
               else
                 let profit_percentage =
                       (e_price max_price_entry - e_price min_price_entry)
                         / e_price min_price_entry * 100
                 in if min_profit_percentage \<le> profit_percentage then
                      Inr (Some \<lparr>o_token_pair = take 8 token_a @ ''.../'' @ take 8 token_b @ ''...'',
                                 o_buy_dex = e_dex min_price_entry,
                                 o_sell_dex = e_dex max_price_entry,
                                 o_buy_price = e_price min_price_entry,
                                 o_sell_price = e_price max_price_entry,
                                 o_profit_percentage = profit_percentage,
                                 o_buy_liquidity = e_liquidity min_price_entry,
                                 o_sell_liquidity = e_liquidity max_price_entry,
                                 o_timestamp = now\<rparr>)
                    else Inr None
             else Inr None
      | _ \<Rightarrow> Inr None)"

text \<open>The ordered pairs the two \<^verbatim>\<open>for\<close> loops visit (\<^verbatim>\<open>continue\<close> on equal tokens).\<close>

definition token_pairs :: "string list \<Rightarrow> (string \<times> string) list" where
  "token_pairs tokens = [(token_a, token_b). token_a \<leftarrow> tokens, token_b \<leftarrow> tokens, token_a \<noteq> token_b]"

text \<open>
  The loops, with the list \<^verbatim>\<open>opportunities\<close> as accumulator. \<^verbatim>\<open>time.time()\<close> is read
  once for every opportunity built: \<open>clock k\<close> is the reading for the opportunity
  built after \<open>k\<close> others. An exception leaves the function.
\<close>

fun scan_loop ::
  "latest_prices \<Rightarrow> rat \<Rightarrow> (nat \<Rightarrow> rat) \<Rightarrow> (string \<times> string) list \<Rightarrow> opportunity list
     \<Rightarrow> py_error + opportunity list" where
  "scan_loop lp thr clock [] opportunities = Inr opportunities"
| "scan_loop lp thr clock ((token_a, token_b) # rest) opportunities =
     (case scan_pair lp thr token_a token_b (clock (length opportunities)) of
        Inl e \<Rightarrow> Inl e
      | Inr None \<Rightarrow> scan_loop lp thr clock rest opportunities
      | Inr (Some opp) \<Rightarrow> scan_loop lp thr clock rest (opportunities @ [opp]))"

text \<open>
  \<^verbatim>\<open>opportunities.sort(key=lambda x: x["profit_percentage"], reverse=True)\<close>: a stable
  sort, descending; elements with equal keys keep their order.
\<close>

definition sort_descending :: "opportunity list \<Rightarrow> opportunity list" where
  "sort_descending opportunities = sort_key (\<lambda>x. - o_profit_percentage x) opportunities"

definition get_arbitrage_opportunities ::
  "latest_prices \<Rightarrow> string list \<Rightarrow> rat \<Rightarrow> (nat \<Rightarrow> rat) \<Rightarrow> py_error + opportunity list" where
  "get_arbitrage_opportunities lp tokens min_profit_percentage clock =
     (case scan_loop lp min_profit_percentage clock (token_pairs tokens) [] of
        Inl e \<Rightarrow> Inl e
      | Inr opportunities \<Rightarrow> Inr (sort_descending opportunities))"

text \<open>
  The method on the monitor's state: it assigns no attribute of \<^verbatim>\<open>self\<close> and updates
  none of the dictionaries it reads (every entry of \<^verbatim>\<open>dex_prices\<close> and every result is
  a new dictionary), so the state it is called on is the state it leaves.
\<close>

record price_monitor =
  latest_prices :: latest_prices
  price_history :: "(string \<times> (rat \<times> rat \<times> rat) list) list"
  monitoring :: bool

definition get_arbitrage_opportunities_method ::
  "price_monitor \<Rightarrow> string list \<Rightarrow> rat \<Rightarrow> (nat \<Rightarrow> rat)
     \<Rightarrow> (py_error + opportunity list) \<times> price_monitor" where
  "get_arbitrage_opportunities_method self tokens min_profit_percentage clock =
     (get_arbitrage_opportunities (latest_prices self) tokens min_profit_percentage clock, self)"

subsection \<open>The polling loop of one venue\<close>

text \<open>
  One pass of the \<^verbatim>\<open>while self.monitoring\<close> loop of \<^verbatim>\<open>_monitor_dex_prices\<close>, seen
  from the counter \<^verbatim>\<open>consecutive_failures\<close>: the poll returns prices, returns nothing,
  or an exception is raised in the \<^verbatim>\<open>try\<close> block. The pass yields the new counter and
  the durations of the \<^verbatim>\<open>asyncio.sleep\<close> calls it makes before the next poll, in order.
\<close>

datatype poll_outcome = Updated | NoPrices | Raised

definition max_failures :: int where
  "max_failures = 5"

definition monitor_pass :: "rat \<Rightarrow> int \<Rightarrow> poll_outcome \<Rightarrow> int \<times> rat list" where
  "monitor_pass interval consecutive_failures outcome =
     (case outcome of
        Raised \<Rightarrow>
          let failures = consecutive_failures + 1;
              sleep_time = min 30 (2 ^ nat failures)
          in (failures, [sleep_time])
      | _ \<Rightarrow>
          let failures = (case outcome of Updated \<Rightarrow> 0 | _ \<Rightarrow> consecutive_failures + 1)
          in if max_failures \<le> failures then (0, [30, interval])
             else (failures, [interval]))"

text \<open>The loop over a sequence of poll outcomes: the final counter and all sleeps.\<close>

fun monitor_dex_prices :: "rat \<Rightarrow> int \<Rightarrow> poll_outcome list \<Rightarrow> int \<times> rat list" where
  "monitor_dex_prices interval consecutive_failures [] = (consecutive_failures, [])"
| "monitor_dex_prices interval consecutive_failures (outcome # rest) =
     (case monitor_pass interval consecutive_failures outcome of
        (failures, sleeps) \<Rightarrow>
          (case monitor_dex_prices interval failures rest of
             (final, later) \<Rightarrow> (final, sleeps @ later)))"

section \<open>swap_agent.py\<close>

record ArbitrageOpportunity =
  token_a :: string
  token_b :: string
  buy_dex :: string
  sell_dex :: string
  buy_price :: rat
  sell_price :: rat
  profit_percentage :: rat
  estimated_profit :: rat
  swap_path :: "string list"
  timestamp :: rat

text \<open>
  The four \<^verbatim>\<open>best_...\<close> variables of \<^verbatim>\<open>find_arbitrage_opportunities\<close>, \<^verbatim>\<open>None\<close> at first,
  and the loop over the venues that updates them. The source also computes
  \<^verbatim>\<open>reverse_pair_key\<close> in this loop, and never reads it.
\<close>

record best =
  best_buy_price :: "rat option"
  best_sell_price :: "rat option"
  best_buy_dex :: "string option"
  best_sell_dex :: "string option"

definition no_best :: best where
  "no_best = \<lparr>best_buy_price = None, best_sell_price = None,
               best_buy_dex = None, best_sell_dex = None\<rparr>"

fun best_prices :: "latest_prices \<Rightarrow> string \<Rightarrow> string \<Rightarrow> best \<Rightarrow> best" where
  "best_prices [] ta tb b = b"
| "best_prices ((dex_name, dex_prices) # rest) ta tb b =
     (case map_of dex_prices (pair_key ta tb) of
        None \<Rightarrow> best_prices rest ta tb b
      | Some price_data \<Rightarrow>
          let price = pd_price price_data;
              b1 = (if best_buy_price b = None \<or> price < the (best_buy_price b)
                    then b\<lparr>best_buy_price := Some price, best_buy_dex := Some dex_name\<rparr>
                    else b);
              b2 = (if best_sell_price b1 = None \<or> the (best_sell_price b1) < price
                    then b1\<lparr>best_sell_price := Some price, best_sell_dex := Some dex_name\<rparr>
                    else b1)
          in best_prices rest ta tb b2)"

text \<open>
  The test and the construction for one ordered pair. In the test, \<^verbatim>\<open>None\<close> and a
  zero price are false. (A best price is set together with its venue, so the venues
  are names whenever the prices are numbers.)
\<close>

definition find_pair ::
  "settings \<Rightarrow> latest_prices \<Rightarrow> rat \<Rightarrow> string \<Rightarrow> string \<Rightarrow> ArbitrageOpportunity option" where
  "find_pair cfg price_data current_time a b =
     (let bst = best_prices price_data a b no_best
      in case (best_buy_price bst, best_sell_price bst, best_buy_dex bst, best_sell_dex bst) of
           (Some buy, Some sell, Some buy_venue, Some sell_venue) \<Rightarrow>
             if buy \<noteq> 0 \<and> sell \<noteq> 0 \<and> buy_venue \<noteq> sell_venue \<and> buy < sell then
               let pct = (sell - buy) / buy * 100
               in if min_profit_threshold cfg \<le> pct then
                    Some \<lparr>token_a = a, token_b = b,
                          buy_dex = buy_venue, sell_dex = sell_venue,
                          buy_price = buy, sell_price = sell,
                          profit_percentage = pct,
                          estimated_profit = calculate_profit buy sell (max_position_size cfg),
                          swap_path = [buy_venue, sell_venue],
                          timestamp = current_time\<rparr>
                  else None
             else None
         | _ \<Rightarrow> None)"

text \<open>Python's slice \<^verbatim>\<open>xs[:n]\<close>; a negative \<open>n\<close> counts from the end.\<close>

definition slice_to :: "int \<Rightarrow> 'a list \<Rightarrow> 'a list" where
  "slice_to n xs = (if 0 \<le> n then take (nat n) xs else take (length xs - nat (- n)) xs)"

definition sort_by_profit :: "ArbitrageOpportunity list \<Rightarrow> ArbitrageOpportunity list" where
  "sort_by_profit opportunities = sort_key (\<lambda>x. - profit_percentage x) opportunities"

definition find_arbitrage_opportunities ::
  "settings \<Rightarrow> latest_prices \<Rightarrow> rat \<Rightarrow> ArbitrageOpportunity list" where
  "find_arbitrage_opportunities cfg price_data current_time =
     (if price_data = [] then []
      else slice_to (max_concurrent_swaps cfg)
             (sort_by_profit
                (List.map_filter (\<lambda>(a, b). find_pair cfg price_data current_time a b)
                   (token_pairs (monitored_tokens cfg)))))"

text \<open>
  The loop of \<^verbatim>\<open>execute_opportunities\<close> that creates the tasks: the opportunities for
  which a task is launched, in order.
\<close>

fun launch_tasks ::
  "settings \<Rightarrow> ArbitrageOpportunity list \<Rightarrow> ArbitrageOpportunity list \<Rightarrow> ArbitrageOpportunity list" where
  "launch_tasks cfg [] tasks = tasks"
| "launch_tasks cfg (opportunity # rest) tasks =
     (if max_concurrent_swaps cfg \<le> int (length tasks) then tasks
      else launch_tasks cfg rest (tasks @ [opportunity]))"


section \<open>Inputs of the examples\<close>

definition quote :: "rat \<Rightarrow> rat \<Rightarrow> price_data" where
  "quote p t = \<lparr>pd_price = p, pd_liquidity = Some 0, pd_price_impact = 0, pd_timestamp = t\<rparr>"

text \<open>Three venues quoting SOL-USDC at 100.50, 101.20 and 100.80, at time \<open>t\<close>.\<close>

definition three_venues :: "rat \<Rightarrow> latest_prices" where
  "three_venues t =
     [(''jupiter'', [(''SOL-USDC'', quote (201 / 2) t)]),
      (''raydium'', [(''SOL-USDC'', quote (506 / 5) t)]),
      (''meteora'', [(''SOL-USDC'', quote (504 / 5) t)])]"

definition example_settings :: settings where
  "example_settings =
     \<lparr>min_profit_threshold = 1 / 2, max_slippage_bps = 50, max_position_size = 1,
      monitored_tokens = [''SOL'', ''USDC''], price_update_interval = 1 / 10,
      max_concurrent_swaps = 5\<rparr>"

definition scenario_opportunity :: "rat \<Rightarrow> opportunity" where
  "scenario_opportunity now =
     \<lparr>o_token_pair = ''SOL.../USDC...'', o_buy_dex = ''jupiter'', o_sell_dex = ''raydium'',
      o_buy_price = 201 / 2, o_sell_price = 506 / 5, o_profit_percentage = 140 / 201,
      o_buy_liquidity = 0, o_sell_liquidity = 0, o_timestamp = now\<rparr>"


text \<open>One venue quotes only USDC-SOL (at 1/100), the other SOL-USDC at 102.\<close>

definition reciprocal_venues :: latest_prices where
  "reciprocal_venues =
     [(''jupiter'', [(''USDC-SOL'', quote (1 / 100) 0)]),
      (''raydium'', [(''SOL-USDC'', quote 102 0)])]"

text \<open>The same two venues, had the first venue's quote been entered as SOL-USDC at \<open>1 / (1/100)\<close>.\<close>

definition inverted_venues :: latest_prices where
  "inverted_venues =
     [(''jupiter'', [(''SOL-USDC'', quote (1 / (1 / 100)) 0)]),
      (''raydium'', [(''SOL-USDC'', quote 102 0)])]"

text \<open>Two venues, three tokens: SOL-USDC at 100 and 101, SOL-USDT at 100 and 103.\<close>

definition two_pairs :: latest_prices where
  "two_pairs =
     [(''jupiter'', [(''SOL-USDC'', quote 100 0), (''SOL-USDT'', quote 100 0)]),
      (''raydium'', [(''SOL-USDC'', quote 101 0), (''SOL-USDT'', quote 103 0)])]"

definition one_swap_settings :: settings where
  "one_swap_settings =
     example_settings\<lparr>monitored_tokens := [''SOL'', ''USDC'', ''USDT''], max_concurrent_swaps := 1\<rparr>"

definition usdc_opportunity :: opportunity where
  "usdc_opportunity =
     \<lparr>o_token_pair = ''SOL.../USDC...'', o_buy_dex = ''jupiter'', o_sell_dex = ''raydium'',
      o_buy_price = 100, o_sell_price = 101, o_profit_percentage = 1,
      o_buy_liquidity = 0, o_sell_liquidity = 0, o_timestamp = 0\<rparr>"

definition usdt_opportunity :: opportunity where
  "usdt_opportunity =
     \<lparr>o_token_pair = ''SOL.../USDT...'', o_buy_dex = ''jupiter'', o_sell_dex = ''raydium'',
      o_buy_price = 100, o_sell_price = 103, o_profit_percentage = 3,
      o_buy_liquidity = 0, o_sell_liquidity = 0, o_timestamp = 0\<rparr>"

definition usdc_trade :: ArbitrageOpportunity where
  "usdc_trade =
     \<lparr>token_a = ''SOL'', token_b = ''USDC'', buy_dex = ''jupiter'', sell_dex = ''raydium'',
      buy_price = 100, sell_price = 101, profit_percentage = 1,
      estimated_profit = 1, swap_path = [''jupiter'', ''raydium''], timestamp = 0\<rparr>"

definition usdt_trade :: ArbitrageOpportunity where
  "usdt_trade =
     \<lparr>token_a = ''SOL'', token_b = ''USDT'', buy_dex = ''jupiter'', sell_dex = ''raydium'',
      buy_price = 100, sell_price = 103, profit_percentage = 3,
      estimated_profit = 3, swap_path = [''jupiter'', ''raydium''], timestamp = 0\<rparr>"

text \<open>An entry of \<^verbatim>\<open>dex_prices\<close> for the examples of ties.\<close>

definition entry :: "string \<Rightarrow> rat \<Rightarrow> dex_price" where
  "entry name p = \<lparr>e_dex = name, e_price = p, e_liquidity = 0, e_timestamp = 0\<rparr>"

section \<open>Notions of the specification\<close>

text \<open>
  The entry of a venue for a pair key in the price store, and its age at a time \<open>now\<close>
  (what a staleness bound would be compared with).
\<close>

definition entry_of :: "latest_prices \<Rightarrow> string \<Rightarrow> string \<Rightarrow> price_data option" where
  "entry_of lp dex_name key =
     (case map_of lp dex_name of None \<Rightarrow> None | Some prices \<Rightarrow> map_of prices key)"

definition entry_age :: "rat \<Rightarrow> price_data \<Rightarrow> rat" where
  "entry_age now pd = now - pd_timestamp pd"

text \<open>The price store with every entry's timestamp replaced by \<open>f\<close> of it.\<close>

definition restamp :: "(rat \<Rightarrow> rat) \<Rightarrow> latest_prices \<Rightarrow> latest_prices" where
  "restamp f lp =
     map (\<lambda>(dex_name, prices).
            (dex_name, map (\<lambda>(key, pd). (key, pd\<lparr>pd_timestamp := f (pd_timestamp pd)\<rparr>)) prices))
         lp"

definition restamp_entry :: "(rat \<Rightarrow> rat) \<Rightarrow> dex_price \<Rightarrow> dex_price" where
  "restamp_entry f e = e\<lparr>e_timestamp := f (e_timestamp e)\<rparr>"

text \<open>A result of the scan with the detection timestamps set to 0.\<close>

definition erase_timestamp :: "opportunity \<Rightarrow> opportunity" where
  "erase_timestamp x = x\<lparr>o_timestamp := 0\<rparr>"

definition erase_timestamps :: "py_error + opportunity list \<Rightarrow> py_error + opportunity list" where
  "erase_timestamps r = (case r of Inl e \<Rightarrow> Inl e | Inr opps \<Rightarrow> Inr (map erase_timestamp opps))"

section \<open>Properties\<close>

subsection \<open>Binary64 rounding: the exponent, and evaluation\<close>

lemma floor_log2_bounds:
  assumes "0 < x"
  shows "power_int 2 (floor_log2 x) \<le> x \<and> x < power_int 2 (floor_log2 x + 1)"
proof -
  obtain p q where pq: "quotient_of x = (p, q)" by force
  have q: "0 < q" using quotient_of_denom_pos[OF pq] .
  have x: "x = of_int p / of_int q" using quotient_of_div[OF pq] .
  have p: "0 < p" using assms q x by (simp add: zero_less_divide_iff)
  define bp where "bp = floorlog 2 (nat p)"
  define bq where "bq = floorlog 2 (nat q)"
  have bp: "2 ^ (bp - 1) \<le> nat p" "nat p < 2 ^ bp"
    using floorlog_bounds[of "nat p" 2] p by (simp_all add: bp_def)
  have bq: "2 ^ (bq - 1) \<le> nat q" "nat q < 2 ^ bq"
    using floorlog_bounds[of "nat q" 2] q by (simp_all add: bq_def)
  have bp0: "0 < bp" using bp p by (cases bp) auto
  have bq0: "0 < bq" using bq q by (cases bq) auto
  have pr: "(of_int p :: rat) < 2 ^ bp" "(2::rat) ^ (bp - 1) \<le> of_int p"
    using bp p by (auto simp: nat_less_iff le_nat_iff)
  have qr: "(of_int q :: rat) < 2 ^ bq" "(2::rat) ^ (bq - 1) \<le> of_int q"
    using bq q by (auto simp: nat_less_iff le_nat_iff)
  have qpos: "(0::rat) < of_int q" using q by simp
  define e0 where "e0 = int bp - int bq"
  have up: "x < power_int 2 (e0 + 1)"
  proof -
    have "of_int p < (2::rat) ^ bp" by (rule pr)
    also have "(2::rat) ^ bp = power_int 2 (e0 + 1) * 2 ^ (bq - 1)"
    proof -
      have "power_int (2::rat) ((e0 + 1) + int (bq - 1))
              = power_int 2 (e0 + 1) * power_int 2 (int (bq - 1))"
        by (rule power_int_add) simp
      moreover have "(e0 + 1) + int (bq - 1) = int bp"
        using bq0 by (simp add: e0_def)
      ultimately show ?thesis by (metis power_int_of_nat)
    qed
    also have "\<dots> \<le> power_int 2 (e0 + 1) * of_int q"
      using qr(2) by (simp add: mult_left_mono)
    finally show ?thesis using qpos by (simp add: x pos_divide_less_eq)
  qed
  have lo: "power_int 2 (e0 - 1) < x"
  proof -
    have "power_int 2 (e0 - 1) * of_int q < power_int 2 (e0 - 1) * (2::rat) ^ bq"
      using qr(1) by (simp add: mult_strict_left_mono)
    also have "\<dots> = (2::rat) ^ (bp - 1)"
    proof -
      have "power_int (2::rat) ((e0 - 1) + int bq)
              = power_int 2 (e0 - 1) * power_int 2 (int bq)"
        by (rule power_int_add) simp
      moreover have "(e0 - 1) + int bq = int (bp - 1)"
        using bp0 by (simp add: e0_def)
      ultimately show ?thesis by (metis power_int_of_nat)
    qed
    also have "\<dots> \<le> of_int p" by (rule pr)
    finally show ?thesis using qpos by (simp add: x pos_less_divide_eq)
  qed
  have fl: "floor_log2 x = (if power_int 2 e0 \<le> x then e0 else e0 - 1)"
    by (simp add: floor_log2_def pq e0_def bp_def bq_def Let_def)
  show ?thesis
    using up lo by (auto simp: fl)
qed

lemma floor_log2_unique:
  assumes "0 < x" "power_int 2 e \<le> x" "x < power_int 2 (e + 1)"
  shows "floor_log2 x = e"
proof -
  define f where "f = floor_log2 x"
  have b: "power_int 2 f \<le> x" "x < power_int 2 (f + 1)"
    using floor_log2_bounds[OF assms(1)] by (simp_all add: f_def)
  have "\<not> e < f"
  proof
    assume "e < f"
    then have "power_int (2::rat) (e + 1) \<le> power_int 2 f"
      by (intro power_int_increasing) simp_all
    with b(1) assms(3) show False by simp
  qed
  moreover have "\<not> f < e"
  proof
    assume "f < e"
    then have "power_int (2::rat) (f + 1) \<le> power_int 2 e"
      by (intro power_int_increasing) simp_all
    with b(2) assms(2) show False by simp
  qed
  ultimately show ?thesis by (simp add: f_def)
qed

lemma floor_rat_numeral:
  "\<lfloor>numeral a / numeral b :: rat\<rfloor> = numeral a div numeral b"
  by (metis floor_divide_of_int_eq of_int_numeral)

lemmas round_double_eval = round_double_def round_half_even_def Let_def floor_rat_numeral

text \<open>The three roundings of \<^verbatim>\<open>int(2150 * ((10000 - 600) / 10000))\<close>.\<close>

lemma factor_600: "int_truediv 9400 10000 = Inr (2116691824864133 / 2251799813685248)"
proof -
  have "floor_log2 (47 / 50) = - 1" by (rule floor_log2_unique) simp_all
  then show ?thesis by (simp add: int_truediv_def round_double_eval)
qed

lemma float_2150: "int_to_float 2150 = Inr 2150"
proof -
  have "floor_log2 2150 = 11" by (rule floor_log2_unique) simp_all
  then show ?thesis by (simp add: int_to_float_def round_double_eval)
qed

lemma product_2150_600:
  "float_mul 2150 (2116691824864133 / 2251799813685248)
     = Some (8888451998941183 / 4398046511104)"
proof -
  have "floor_log2 (2150 * (2116691824864133 / 2251799813685248)) = 10"
    by (rule floor_log2_unique) simp_all
  then show ?thesis by (simp add: float_mul_def round_double_eval)
qed

lemma slippage_min_out_2150_600: "slippage_min_out 2150 600 = Inr 2020"
  by (simp add: slippage_min_out_def factor_600 float_2150 product_2150_600 float_to_int_def
      floor_rat_numeral)

lemma lower_jupiter: "lower ''jupiter'' = ''jupiter''"
  by (simp add: lower_def lower_char_def)

subsection \<open>C4: minimum output of a hop\<close>

text \<open>
  C4: for every hop the minimum output is \<open>amount_in * (10000 - max_slippage_bps) / 10000\<close>
  truncated to an integer. The code computes the factor and the product in binary64:
  with \<open>max_slippage_bps = 600\<close> and an amount of 2150 the factor 0.94 is rounded
  down, the product is the double just below 2021, and the hop's minimum output is
  2020, where the exact quotient \<open>2150 * 9400 / 10000\<close> is 2021.
\<close>

theorem build_swap_data_rounds_below:
  "build_swap_data (example_settings\<lparr>max_slippage_bps := 600\<rparr>) ''SOL'' ''USDC'' 2150 [''jupiter''] 0
     = Some \<lparr>expected_profit = 0, slippage_bps = 600,
             swap_instructions =
               [\<lparr>dex_type = 0, amount_in = 2150, minimum_amount_out = 2020,
                 token_mint_in = ''SOL'', token_mint_out = ''USDC''\<rparr>]\<rparr>
   \<and> calculate_slippage_amount 2150 600 = Inr 2020
   \<and> (2150 * (10000 - 600)) div 10000 = (2021 :: int)"
  by (simp add: build_swap_data_def example_settings_def lower_jupiter dex_type_map_def
      slippage_min_out_2150_600 calculate_slippage_amount_def)

subsection \<open>The scans on the examples\<close>

lemma three_venues_collect:
  "collect_dex_prices (three_venues t) ''SOL-USDC'' =
     [\<lparr>e_dex = ''jupiter'', e_price = 201 / 2, e_liquidity = 0, e_timestamp = t\<rparr>,
      \<lparr>e_dex = ''raydium'', e_price = 506 / 5, e_liquidity = 0, e_timestamp = t\<rparr>,
      \<lparr>e_dex = ''meteora'', e_price = 504 / 5, e_liquidity = 0, e_timestamp = t\<rparr>]"
  by (simp add: three_venues_def quote_def)

lemma three_venues_collect_rev:
  "collect_dex_prices (three_venues t) ''USDC-SOL'' = []"
  by (simp add: three_venues_def quote_def)

lemma three_venues_scan:
  "get_arbitrage_opportunities (three_venues t) [''SOL'', ''USDC''] (1 / 2) clock
     = Inr [scenario_opportunity (clock 0)]"
  by (simp add: get_arbitrage_opportunities_def token_pairs_def scan_pair_def pair_key_def
      three_venues_collect three_venues_collect_rev sort_descending_def scenario_opportunity_def)


subsection \<open>C1: reciprocal quotes\<close>

text \<open>
  C1: a venue that holds only the key \<^verbatim>\<open>"B-A"\<close> at price \<open>p\<close> is to be treated as quoting
  \<^verbatim>\<open>"A-B"\<close> at \<open>1/p\<close>. Neither scan does: with one venue quoting USDC-SOL at 1/100 and
  another SOL-USDC at 102, both scans return nothing, although with the first quote
  entered as SOL-USDC at 100 they find the pair (buy at 100, sell at 102).
\<close>

theorem reciprocal_quote_ignored:
  "get_arbitrage_opportunities reciprocal_venues [''SOL'', ''USDC''] (1 / 2) clock = Inr []
   \<and> find_arbitrage_opportunities example_settings reciprocal_venues now = []
   \<and> get_arbitrage_opportunities inverted_venues [''SOL'', ''USDC''] (1 / 2) clock
       = Inr [\<lparr>o_token_pair = ''SOL.../USDC...'', o_buy_dex = ''jupiter'', o_sell_dex = ''raydium'',
               o_buy_price = 100, o_sell_price = 102, o_profit_percentage = 2,
               o_buy_liquidity = 0, o_sell_liquidity = 0, o_timestamp = clock 0\<rparr>]"
  by (simp add: get_arbitrage_opportunities_def token_pairs_def scan_pair_def pair_key_def
      reciprocal_venues_def inverted_venues_def quote_def sort_descending_def
      find_arbitrage_opportunities_def example_settings_def
      List.map_filter_def find_pair_def no_best_def sort_by_profit_def slice_to_def Let_def)

subsection \<open>C2: no staleness bound\<close>

text \<open>
  C2, as stated, fails: the scan reads no timestamp. Entries written at time 0 and
  scanned at time 1000000 are the two legs of the opportunity returned, whatever the
  staleness bound (here 60 seconds).
\<close>

theorem stale_entries_scanned_counterexample:
  "get_arbitrage_opportunities (three_venues 0) [''SOL'', ''USDC''] (1 / 2) (\<lambda>k. 1000000)
     = Inr [scenario_opportunity 1000000]
   \<and> entry_of (three_venues 0) (o_buy_dex (scenario_opportunity 1000000)) ''SOL-USDC''
       = Some (quote (201 / 2) 0)
   \<and> entry_of (three_venues 0) (o_sell_dex (scenario_opportunity 1000000)) ''SOL-USDC''
       = Some (quote (506 / 5) 0)
   \<and> 60 < entry_age 1000000 (quote (201 / 2) 0)
   \<and> 60 < entry_age 1000000 (quote (506 / 5) 0)"
  by (simp add: three_venues_scan)
     (simp add: scenario_opportunity_def entry_of_def three_venues_def entry_age_def quote_def)

lemma map_of_restamp_prices:
  "map_of (map (\<lambda>(key, pd). (key, pd\<lparr>pd_timestamp := f (pd_timestamp pd)\<rparr>)) prices) k
     = map_option (\<lambda>pd. pd\<lparr>pd_timestamp := f (pd_timestamp pd)\<rparr>) (map_of prices k)"
  by (induction prices) auto

lemma collect_restamp:
  "collect_dex_prices (restamp f lp) key = map (restamp_entry f) (collect_dex_prices lp key)"
proof (induction lp)
  case Nil
  then show ?case by (simp add: restamp_def)
next
  case (Cons v lp)
  obtain d ps where v: "v = (d, ps)" by (cases v)
  have r: "restamp f ((d, ps) # lp)
             = (d, map (\<lambda>(key, pd). (key, pd\<lparr>pd_timestamp := f (pd_timestamp pd)\<rparr>)) ps)
                 # restamp f lp"
    by (simp add: restamp_def)
  show ?case
    unfolding v r using Cons.IH
    by (cases "map_of ps key") (simp_all add: map_of_restamp_prices restamp_entry_def)
qed

lemma min_from_restamp:
  "min_from (restamp_entry f b) (map (restamp_entry f) xs) = restamp_entry f (min_from b xs)"
  by (induction xs arbitrary: b) (simp_all add: restamp_entry_def)

lemma max_from_restamp:
  "max_from (restamp_entry f b) (map (restamp_entry f) xs) = restamp_entry f (max_from b xs)"
  by (induction xs arbitrary: b) (simp_all add: restamp_entry_def)

lemma scan_pair_restamp:
  "scan_pair (restamp f lp) thr a b now = scan_pair lp thr a b now"
proof (cases "collect_dex_prices lp (pair_key a b)")
  case Nil
  then show ?thesis by (simp add: scan_pair_def collect_restamp)
next
  case (Cons x xs)
  show ?thesis
  proof (cases xs)
    case Nil
    with Cons show ?thesis by (simp add: scan_pair_def collect_restamp)
  next
    case (Cons y rest)
    have m: "min_from (restamp_entry f x) (restamp_entry f y # map (restamp_entry f) rest)
               = restamp_entry f (min_from x (y # rest))"
      using min_from_restamp[of f x "y # rest"] by simp
    have M: "max_from (restamp_entry f x) (restamp_entry f y # map (restamp_entry f) rest)
               = restamp_entry f (max_from x (y # rest))"
      using max_from_restamp[of f x "y # rest"] by simp
    show ?thesis
      unfolding scan_pair_def collect_restamp \<open>collect_dex_prices lp (pair_key a b) = x # xs\<close> Cons
      by (simp add: m M Let_def del: min_from.simps max_from.simps)
         (simp add: restamp_entry_def)
  qed
qed

lemma scan_loop_restamp:
  "scan_loop (restamp f lp) thr clock ps acc = scan_loop lp thr clock ps acc"
  by (induction ps arbitrary: acc)
     (auto simp: scan_pair_restamp split: sum.splits option.splits)

text \<open>
  C2 (amended): the scan applies no staleness bound. Every entry of the price store
  takes part whatever its age: the result of the scan is the same when the timestamps
  of the entries are replaced by any others.
\<close>

theorem scan_ignores_timestamps:
  "get_arbitrage_opportunities (restamp f lp) tokens thr clock
     = get_arbitrage_opportunities lp tokens thr clock"
  by (simp add: get_arbitrage_opportunities_def scan_loop_restamp)

subsection \<open>C3: every opportunity is profitable, across two venues\<close>

lemma min_from_mem: "min_from b xs \<in> set (b # xs)"
  by (induction xs arbitrary: b) auto

lemma max_from_mem: "max_from b xs \<in> set (b # xs)"
  by (induction xs arbitrary: b) auto



lemma min_from_first: "\<forall>y\<in>set xs. e_price b \<le> e_price y \<Longrightarrow> min_from b xs = b"
  by (induction xs arbitrary: b) auto

lemma max_from_first: "\<forall>y\<in>set xs. e_price y \<le> e_price b \<Longrightarrow> max_from b xs = b"
  by (induction xs arbitrary: b) auto









subsection \<open>C5: ranking and the limit on executions\<close>

lemma sorted_descending_sort_key:
  fixes k :: "'a \<Rightarrow> rat"
  shows "sorted_wrt (\<lambda>x y. k y \<le> k x) (sort_key (\<lambda>x. - k x) xs)"
proof -
  have "sorted (map (\<lambda>x. - k x) (sort_key (\<lambda>x. - k x) xs))"
    by (rule sorted_sort_key)
  then show ?thesis by (simp add: sorted_map)
qed

lemma sorted_wrt_slice_to: "sorted_wrt P xs \<Longrightarrow> sorted_wrt P (slice_to n xs)"
  by (simp add: slice_to_def sorted_wrt_take)

lemma length_slice_to: "0 \<le> n \<Longrightarrow> int (length (slice_to n xs)) \<le> n"
  by (simp add: slice_to_def)

lemma length_launch_tasks:
  "int (length (launch_tasks cfg opportunities tasks))
     \<le> max (max_concurrent_swaps cfg) (int (length tasks))"
proof (induction opportunities arbitrary: tasks)
  case Nil
  then show ?case by simp
next
  case (Cons x opportunities)
  show ?case
  proof (cases "max_concurrent_swaps cfg \<le> int (length tasks)")
    case True
    then show ?thesis by simp
  next
    case False
    have "int (length (launch_tasks cfg opportunities (tasks @ [x])))
            \<le> max (max_concurrent_swaps cfg) (int (length (tasks @ [x])))"
      by (rule Cons.IH)
    with False show ?thesis by simp
  qed
qed

text \<open>
  C5: the opportunities of a scan are sorted by profit percentage, descending (both
  scans); the list the agent's scan hands on holds at most \<open>max_concurrent_swaps\<close>
  opportunities, and \<^verbatim>\<open>execute_opportunities\<close> launches at most that many tasks (for a
  limit that is not negative).
\<close>

theorem scan_sorted_and_bounded:
  "(get_arbitrage_opportunities lp tokens thr clock = Inr opps \<longrightarrow>
      sorted_wrt (\<lambda>x y. o_profit_percentage y \<le> o_profit_percentage x) opps)
   \<and> sorted_wrt (\<lambda>x y. profit_percentage y \<le> profit_percentage x)
         (find_arbitrage_opportunities cfg pd now)
   \<and> (0 \<le> max_concurrent_swaps cfg \<longrightarrow>
         int (length (find_arbitrage_opportunities cfg pd now)) \<le> max_concurrent_swaps cfg
         \<and> int (length (launch_tasks cfg opportunities [])) \<le> max_concurrent_swaps cfg)"
proof (intro conjI impI)
  assume "get_arbitrage_opportunities lp tokens thr clock = Inr opps"
  then obtain out where "opps = sort_descending out"
    by (auto simp: get_arbitrage_opportunities_def split: sum.splits)
  then show "sorted_wrt (\<lambda>x y. o_profit_percentage y \<le> o_profit_percentage x) opps"
    by (simp add: sort_descending_def sorted_descending_sort_key)
next
  show "sorted_wrt (\<lambda>x y. profit_percentage y \<le> profit_percentage x)
         (find_arbitrage_opportunities cfg pd now)"
    by (simp add: find_arbitrage_opportunities_def sort_by_profit_def
        sorted_wrt_slice_to sorted_descending_sort_key)
next
  assume n: "0 \<le> max_concurrent_swaps cfg"
  then show "int (length (find_arbitrage_opportunities cfg pd now)) \<le> max_concurrent_swaps cfg"
    by (simp add: find_arbitrage_opportunities_def length_slice_to)
  show "int (length (launch_tasks cfg opportunities [])) \<le> max_concurrent_swaps cfg"
    using length_launch_tasks[of cfg opportunities "[]"] n by simp
qed

lemma two_pairs_collect:
  "collect_dex_prices two_pairs ''SOL-USDC'' =
     [\<lparr>e_dex = ''jupiter'', e_price = 100, e_liquidity = 0, e_timestamp = 0\<rparr>,
      \<lparr>e_dex = ''raydium'', e_price = 101, e_liquidity = 0, e_timestamp = 0\<rparr>]"
  "collect_dex_prices two_pairs ''SOL-USDT'' =
     [\<lparr>e_dex = ''jupiter'', e_price = 100, e_liquidity = 0, e_timestamp = 0\<rparr>,
      \<lparr>e_dex = ''raydium'', e_price = 103, e_liquidity = 0, e_timestamp = 0\<rparr>]"
  "collect_dex_prices two_pairs ''USDC-SOL'' = []"
  "collect_dex_prices two_pairs ''USDC-USDT'' = []"
  "collect_dex_prices two_pairs ''USDT-SOL'' = []"
  "collect_dex_prices two_pairs ''USDT-USDC'' = []"
  by (simp_all add: two_pairs_def quote_def)

lemma two_pairs_scan:
  "get_arbitrage_opportunities two_pairs [''SOL'', ''USDC'', ''USDT''] (1 / 2) (\<lambda>k. 0)
     = Inr [usdt_opportunity, usdc_opportunity]"
  by (simp add: get_arbitrage_opportunities_def token_pairs_def scan_pair_def pair_key_def
      two_pairs_collect sort_descending_def usdt_opportunity_def usdc_opportunity_def)

lemma two_pairs_best:
  "best_prices two_pairs ''SOL'' ''USDC'' no_best =
     \<lparr>best_buy_price = Some 100, best_sell_price = Some 101,
      best_buy_dex = Some ''jupiter'', best_sell_dex = Some ''raydium''\<rparr>"
  "best_prices two_pairs ''SOL'' ''USDT'' no_best =
     \<lparr>best_buy_price = Some 100, best_sell_price = Some 103,
      best_buy_dex = Some ''jupiter'', best_sell_dex = Some ''raydium''\<rparr>"
  "best_prices two_pairs ''USDC'' ''SOL'' no_best = no_best"
  "best_prices two_pairs ''USDC'' ''USDT'' no_best = no_best"
  "best_prices two_pairs ''USDT'' ''SOL'' no_best = no_best"
  "best_prices two_pairs ''USDT'' ''USDC'' no_best = no_best"
  by (simp_all add: two_pairs_def quote_def pair_key_def no_best_def Let_def)

lemma two_pairs_find_pair:
  "find_pair one_swap_settings two_pairs 0 ''SOL'' ''USDC'' = Some usdc_trade"
  "find_pair one_swap_settings two_pairs 0 ''SOL'' ''USDT'' = Some usdt_trade"
  "find_pair one_swap_settings two_pairs 0 ''USDC'' ''SOL'' = None"
  "find_pair one_swap_settings two_pairs 0 ''USDC'' ''USDT'' = None"
  "find_pair one_swap_settings two_pairs 0 ''USDT'' ''SOL'' = None"
  "find_pair one_swap_settings two_pairs 0 ''USDT'' ''USDC'' = None"
  unfolding find_pair_def two_pairs_best
  by (simp_all add: no_best_def one_swap_settings_def Let_def
      example_settings_def calculate_profit_def usdc_trade_def usdt_trade_def)

lemma one_swap_settings_fields:
  "monitored_tokens one_swap_settings = [''SOL'', ''USDC'', ''USDT'']"
  "max_concurrent_swaps one_swap_settings = 1"
  by (simp_all add: one_swap_settings_def)

lemma two_pairs_sorted:
  "sort_by_profit [usdc_trade, usdt_trade] = [usdt_trade, usdc_trade]"
  by (simp add: sort_by_profit_def usdc_trade_def usdt_trade_def)

lemma two_pairs_find:
  "find_arbitrage_opportunities one_swap_settings two_pairs 0 = [usdt_trade]"
proof -
  have "List.map_filter (\<lambda>(a, b). find_pair one_swap_settings two_pairs 0 a b)
          (token_pairs (monitored_tokens one_swap_settings)) = [usdc_trade, usdt_trade]"
    by (simp add: one_swap_settings_fields token_pairs_def List.map_filter_def
        two_pairs_find_pair)
  moreover have "two_pairs \<noteq> []" by (simp add: two_pairs_def)
  ultimately show ?thesis
    by (simp add: find_arbitrage_opportunities_def two_pairs_sorted one_swap_settings_fields
        slice_to_def)
qed

lemma two_pairs_launch:
  "launch_tasks one_swap_settings [usdt_trade, usdt_trade] [] = [usdt_trade]"
  by (simp add: one_swap_settings_fields)

theorem scan_sorted_and_bounded_witness:
  "get_arbitrage_opportunities two_pairs [''SOL'', ''USDC'', ''USDT''] (1 / 2) (\<lambda>k. 0)
     = Inr [usdt_opportunity, usdc_opportunity]
   \<and> o_profit_percentage usdc_opportunity \<le> o_profit_percentage usdt_opportunity
   \<and> 0 \<le> max_concurrent_swaps one_swap_settings
   \<and> find_arbitrage_opportunities one_swap_settings two_pairs 0 = [usdt_trade]
   \<and> int (length [usdt_trade]) \<le> max_concurrent_swaps one_swap_settings
   \<and> launch_tasks one_swap_settings [usdt_trade, usdt_trade] [] = [usdt_trade]"
  using scan_sorted_and_bounded
          [of two_pairs "[''SOL'', ''USDC'', ''USDT'']" "1 / 2" "\<lambda>k. 0"
              "[usdt_opportunity, usdc_opportunity]" one_swap_settings two_pairs 0
              "[usdt_trade, usdt_trade]"]
  by (simp add: two_pairs_scan two_pairs_find two_pairs_launch one_swap_settings_fields)

subsection \<open>C7: determinism of the scan\<close>

lemma min_from_later:
  assumes "\<forall>y\<in>set pre. e_price m < e_price y" "\<forall>y\<in>set post. e_price m \<le> e_price y"
    "e_price m < e_price b"
  shows "min_from b (pre @ m # post) = m"
  using assms
proof (induction pre arbitrary: b)
  case Nil
  then show ?case by (simp add: min_from_first)
next
  case (Cons p pre)
  let ?b = "if e_price p < e_price b then p else b"
  have "min_from ?b (pre @ m # post) = m"
    using Cons.prems by (intro Cons.IH) auto
  then show ?case by simp
qed

lemma max_from_later:
  assumes "\<forall>y\<in>set pre. e_price y < e_price m" "\<forall>y\<in>set post. e_price y \<le> e_price m"
    "e_price b < e_price m"
  shows "max_from b (pre @ m # post) = m"
  using assms
proof (induction pre arbitrary: b)
  case Nil
  then show ?case by (simp add: max_from_first)
next
  case (Cons p pre)
  let ?b = "if e_price b < e_price p then p else b"
  have "max_from ?b (pre @ m # post) = m"
    using Cons.prems by (intro Cons.IH) auto
  then show ?case by simp
qed

lemma min_from_first_minimal:
  assumes "pre @ m # post = b # xs"
    "\<forall>y\<in>set pre. e_price m < e_price y" "\<forall>y\<in>set post. e_price m \<le> e_price y"
  shows "min_from b xs = m"
proof (cases pre)
  case Nil
  with assms show ?thesis by (simp add: min_from_first)
next
  case (Cons p ps)
  with assms have "b = p" "xs = ps @ m # post" by simp_all
  moreover have "min_from p (ps @ m # post) = m"
    using assms Cons by (intro min_from_later) auto
  ultimately show ?thesis by simp
qed

lemma max_from_first_maximal:
  assumes "pre @ m # post = b # xs"
    "\<forall>y\<in>set pre. e_price y < e_price m" "\<forall>y\<in>set post. e_price y \<le> e_price m"
  shows "max_from b xs = m"
proof (cases pre)
  case Nil
  with assms show ?thesis by (simp add: max_from_first)
next
  case (Cons p ps)
  with assms have "b = p" "xs = ps @ m # post" by simp_all
  moreover have "max_from p (ps @ m # post) = m"
    using assms Cons by (intro max_from_later) auto
  ultimately show ?thesis by simp
qed

lemma collect_dex_prices_order:
  "map e_dex (collect_dex_prices lp key)
     = map fst (filter (\<lambda>(dex_name, prices). map_of prices key \<noteq> None) lp)"
  by (induction lp) (auto split: option.splits)

lemma scan_pair_clock:
  "scan_pair lp thr a b n1
     = (case scan_pair lp thr a b n2 of
          Inl e \<Rightarrow> Inl e
        | Inr None \<Rightarrow> Inr None
        | Inr (Some x) \<Rightarrow> Inr (Some (x\<lparr>o_timestamp := n1\<rparr>)))"
  unfolding scan_pair_def
  by (simp add: Let_def del: min_from.simps max_from.simps split: list.splits)

lemma insort_key_erase:
  "insort_key (\<lambda>x. - o_profit_percentage x) (erase_timestamp x) (map erase_timestamp ys)
     = map erase_timestamp (insort_key (\<lambda>x. - o_profit_percentage x) x ys)"
  by (induction ys) (simp_all add: erase_timestamp_def)

lemma sort_descending_erase:
  "sort_descending (map erase_timestamp xs) = map erase_timestamp (sort_descending xs)"
  unfolding sort_descending_def
  by (induction xs) (simp_all add: insort_key_erase)

lemma erase_timestamp_update: "erase_timestamp (x\<lparr>o_timestamp := n\<rparr>) = erase_timestamp x"
  by (simp add: erase_timestamp_def)

lemma scan_loop_clock:
  assumes "map erase_timestamp acc1 = map erase_timestamp acc2"
  shows "erase_timestamps (scan_loop lp thr clock1 ps acc1)
           = erase_timestamps (scan_loop lp thr clock2 ps acc2)"
  using assms
proof (induction ps arbitrary: acc1 acc2)
  case Nil
  then show ?case by (simp add: erase_timestamps_def)
next
  case (Cons p ps)
  obtain a b where p: "p = (a, b)" by (cases p)
  let ?n1 = "clock1 (length acc1)" and ?n2 = "clock2 (length acc2)"
  note c = scan_pair_clock[of lp thr a b ?n1 ?n2]
  show ?case
  proof (cases "scan_pair lp thr a b ?n2")
    case (Inl e)
    with c p show ?thesis by (simp add: erase_timestamps_def)
  next
    case (Inr r)
    show ?thesis
    proof (cases r)
      case None
      with c p Inr Cons show ?thesis by simp
    next
      case (Some x)
      have "map erase_timestamp (acc1 @ [x\<lparr>o_timestamp := ?n1\<rparr>])
              = map erase_timestamp (acc2 @ [x])"
        using Cons.prems by (simp add: erase_timestamp_update)
      then have "erase_timestamps (scan_loop lp thr clock1 ps (acc1 @ [x\<lparr>o_timestamp := ?n1\<rparr>]))
              = erase_timestamps (scan_loop lp thr clock2 ps (acc2 @ [x]))"
        by (rule Cons.IH)
      with c p Inr Some show ?thesis by simp
    qed
  qed
qed

lemma erase_get_arbitrage_opportunities:
  "erase_timestamps (get_arbitrage_opportunities lp tokens thr clock)
     = (case erase_timestamps (scan_loop lp thr clock (token_pairs tokens) []) of
          Inl e \<Rightarrow> Inl e | Inr opps \<Rightarrow> Inr (sort_descending opps))"
  by (simp add: get_arbitrage_opportunities_def erase_timestamps_def sort_descending_erase
      split: sum.splits)

text \<open>
  C7 (amended): two runs of the scan on the same price store, tokens and threshold
  return the same opportunities in the same order, up to the field \<^verbatim>\<open>timestamp\<close>, which
  holds the clock reading of the run; the scan leaves the monitor's state as it was;
  the entries are collected in the iteration order of the venues, and the buy entry
  is the first one with the lowest price, the sell entry the first one with the
  highest price.
\<close>

theorem scan_deterministic_up_to_timestamp:
  "erase_timestamps (get_arbitrage_opportunities lp tokens thr clock1)
     = erase_timestamps (get_arbitrage_opportunities lp tokens thr clock2)
   \<and> snd (get_arbitrage_opportunities_method self tokens thr clock1) = self
   \<and> map e_dex (collect_dex_prices lp key)
       = map fst (filter (\<lambda>(dex_name, prices). map_of prices key \<noteq> None) lp)
   \<and> (pre @ m # post = b # xs \<and> (\<forall>y\<in>set pre. e_price m < e_price y)
        \<and> (\<forall>y\<in>set post. e_price m \<le> e_price y) \<longrightarrow> min_from b xs = m)
   \<and> (pre @ m # post = b # xs \<and> (\<forall>y\<in>set pre. e_price y < e_price m)
        \<and> (\<forall>y\<in>set post. e_price y \<le> e_price m) \<longrightarrow> max_from b xs = m)"
proof (intro conjI impI)
  have "erase_timestamps (scan_loop lp thr clock1 (token_pairs tokens) [])
          = erase_timestamps (scan_loop lp thr clock2 (token_pairs tokens) [])"
    by (rule scan_loop_clock) simp
  then show "erase_timestamps (get_arbitrage_opportunities lp tokens thr clock1)
     = erase_timestamps (get_arbitrage_opportunities lp tokens thr clock2)"
    by (simp only: erase_get_arbitrage_opportunities)
  show "snd (get_arbitrage_opportunities_method self tokens thr clock1) = self"
    by (simp add: get_arbitrage_opportunities_method_def)
  show "map e_dex (collect_dex_prices lp key)
       = map fst (filter (\<lambda>(dex_name, prices). map_of prices key \<noteq> None) lp)"
    by (rule collect_dex_prices_order)
next
  assume "pre @ m # post = b # xs \<and> (\<forall>y\<in>set pre. e_price m < e_price y)
        \<and> (\<forall>y\<in>set post. e_price m \<le> e_price y)"
  then show "min_from b xs = m" by (intro min_from_first_minimal[of pre m post]) simp_all
next
  assume "pre @ m # post = b # xs \<and> (\<forall>y\<in>set pre. e_price y < e_price m)
        \<and> (\<forall>y\<in>set post. e_price y \<le> e_price m)"
  then show "max_from b xs = m" by (intro max_from_first_maximal[of pre m post]) simp_all
qed

text \<open>
  C7, as stated, fails: every opportunity holds the reading of \<^verbatim>\<open>time.time()\<close> taken
  when it was built, so two runs on the same snapshot at different times return
  different sequences.
\<close>

theorem scan_clock_counterexample:
  "get_arbitrage_opportunities (three_venues 0) [''SOL'', ''USDC''] (1 / 2) (\<lambda>k. 0)
     \<noteq> get_arbitrage_opportunities (three_venues 0) [''SOL'', ''USDC''] (1 / 2) (\<lambda>k. 1)"
  by (simp add: three_venues_scan scenario_opportunity_def)

theorem scan_deterministic_up_to_timestamp_witness:
  "erase_timestamps (get_arbitrage_opportunities (three_venues 0) [''SOL'', ''USDC''] (1 / 2) (\<lambda>k. 0))
     = erase_timestamps (get_arbitrage_opportunities (three_venues 0) [''SOL'', ''USDC''] (1 / 2) (\<lambda>k. 1))
   \<and> min_from (entry ''jupiter'' 100)
         [entry ''raydium'' 102, entry ''meteora'' 100, entry ''phoenix'' 102]
       = entry ''jupiter'' 100
   \<and> max_from (entry ''jupiter'' 100)
         [entry ''raydium'' 102, entry ''meteora'' 100, entry ''phoenix'' 102]
       = entry ''raydium'' 102"
  using scan_deterministic_up_to_timestamp
          [where lp = "three_venues 0" and tokens = "[''SOL'', ''USDC'']" and thr = "1 / 2"
             and ?clock1.0 = "\<lambda>k. 0" and ?clock2.0 = "\<lambda>k. 1"
             and pre = "[]" and m = "entry ''jupiter'' 100"
             and post = "[entry ''raydium'' 102, entry ''meteora'' 100, entry ''phoenix'' 102]"
             and b = "entry ''jupiter'' 100"
             and xs = "[entry ''raydium'' 102, entry ''meteora'' 100, entry ''phoenix'' 102]"]
        scan_deterministic_up_to_timestamp
          [where pre = "[entry ''jupiter'' 100]" and m = "entry ''raydium'' 102"
             and post = "[entry ''meteora'' 100, entry ''phoenix'' 102]"
             and b = "entry ''jupiter'' 100"
             and xs = "[entry ''raydium'' 102, entry ''meteora'' 100, entry ''phoenix'' 102]"]
  by (simp add: entry_def)

subsection \<open>C6: the circuit breaker of the polling loop\<close>

text \<open>
  C6: when the failure counter reaches the threshold (5), polling pauses for the
  cooldown (30 s) and the counter is reset. The pause and the reset are in the
  \<^verbatim>\<open>try\<close> block, after a poll that returned nothing; a poll that raises goes to the
  \<^verbatim>\<open>except\<close> branch, which only backs off. After five polls that raise, the counter is 5
  and stays (the back-off, \<open>min 30 (2^5)\<close>, happens to be 30 s), and a sixth failure makes
  it 6; after five polls that return nothing it is 0.
\<close>

theorem failures_by_exception_never_reset:
  "monitor_dex_prices interval 0 [Raised, Raised, Raised, Raised, Raised]
     = (5, [2, 4, 8, 16, 30])
   \<and> monitor_dex_prices interval 0 [Raised, Raised, Raised, Raised, Raised, Raised]
     = (6, [2, 4, 8, 16, 30, 30])
   \<and> monitor_dex_prices interval 0 [NoPrices, NoPrices, NoPrices, NoPrices, NoPrices]
     = (0, [interval, interval, interval, interval, 30, interval])"
  by (simp add: monitor_pass_def max_failures_def Let_def)

subsection \<open>C10: estimated profit\<close>




end
